theory Spec2Isabelle
  imports Main "HOL-Library.Multiset"
begin

section \<open>dotastats/models.py: the Django models of the match store\<close>

text \<open>
  The theory follows \<^verbatim>\<open>src/dotastats/models.py\<close>. A database table is the list of
  its rows, a model instance is a record of its fields, a parsed JSON object is a map from
  keys to JSON values, and a Python exception is the \<open>Inl\<close> branch of a sum.
  Timestamps and durations are integers (microseconds), Python integers are \<open>int\<close>.
\<close>

subsection \<open>Python's \<^verbatim>\<open>str\<close> on integers\<close>

text \<open>
  \<^verbatim>\<open>str(n)\<close> of a Python integer is its decimal representation: a minus sign for a
  negative number, then the digits, most significant first, without leading zeros.
\<close>

definition digit_char :: "nat \<Rightarrow> char" where
  "digit_char d = ''0123456789'' ! d"

function str_nat :: "nat \<Rightarrow> string" where
  "str_nat n = (if n < 10 then [digit_char n] else str_nat (n div 10) @ [digit_char (n mod 10)])"
  by pat_completeness auto
termination
  by (relation "measure (\<lambda>n. n)") auto

declare str_nat.simps [simp del]

definition py_str :: "int \<Rightarrow> string" where
  "py_str i = (if i < 0 then CHR ''-'' # str_nat (nat (- i)) else str_nat (nat i))"

text \<open>Reading a decimal representation back, to say what "decimal" means.\<close>

definition digit_val :: "char \<Rightarrow> nat" where
  "digit_val c = of_char c - 48"

definition dec_val :: "string \<Rightarrow> nat" where
  "dec_val s = foldl (\<lambda>acc c. 10 * acc + digit_val c) 0 s"

definition is_digit :: "char \<Rightarrow> bool" where
  "is_digit c = (c \<in> set ''0123456789'')"

definition parse_int :: "string \<Rightarrow> int" where
  "parse_int s = (case s of
       [] \<Rightarrow> 0
     | c # cs \<Rightarrow> if c = CHR ''-'' then - int (dec_val cs) else int (dec_val s))"

subsection \<open>Label mappings\<close>

text \<open>\<^verbatim>\<open>get_game_type(game_mode)\<close>, lines 192 to 220: an if/elif chain over the code.\<close>

definition get_game_type :: "int \<Rightarrow> string" where
  "get_game_type game_mode =
     (if game_mode = 1 then ''All Pick''
      else if game_mode = 2 then ''Captain's Mode''
      else if game_mode = 3 then ''Random Draft''
      else if game_mode = 4 then ''Single Draft''
      else if game_mode = 5 then ''All Random''
      else if game_mode = 6 then ''Death Mode''
      else if game_mode = 7 then ''Diretide''
      else if game_mode = 8 then ''Reverse Captain's Mode''
      else if game_mode = 9 then ''The Greeviling''
      else if game_mode = 10 then ''Tutorial''
      else if game_mode = 11 then ''Mid Only''
      else if game_mode = 12 then ''Least Played''
      else if game_mode = 13 then ''New Player Pool''
      else py_str game_mode)"

text \<open>\<^verbatim>\<open>get_lobby_type(lobby_type)\<close>, lines 222 to 236.\<close>

definition get_lobby_type :: "int \<Rightarrow> string" where
  "get_lobby_type lobby_type =
     (if lobby_type = 0 then ''Public Match''
      else if lobby_type = 1 then ''Practice Match''
      else if lobby_type = 2 then ''Tournament Match''
      else if lobby_type = 3 then ''Tutorial''
      else if lobby_type = 4 then ''Co-op Bot Match''
      else if lobby_type = 5 then ''Team Match''
      else py_str lobby_type)"

text \<open>
  The tables of the specification, written from its words: the game-mode labels of
  section 4.4, and the lobby-type labels in the two readings compared below (the
  specification's short names, and the strings of the source).
\<close>

definition spec_game_mode_labels :: "(int \<times> string) list" where
  "spec_game_mode_labels =
     [(1, ''All Pick''), (2, ''Captain's Mode''), (3, ''Random Draft''),
      (4, ''Single Draft''), (5, ''All Random''), (6, ''Death Mode''), (7, ''Diretide''),
      (8, ''Reverse Captain's Mode''), (9, ''The Greeviling''), (10, ''Tutorial''),
      (11, ''Mid Only''), (12, ''Least Played''), (13, ''New Player Pool'')]"

definition spec_lobby_type_labels :: "(int \<times> string) list" where
  "spec_lobby_type_labels =
     [(0, ''Public''), (1, ''Practice''), (2, ''Tournament''), (3, ''Tutorial''),
      (4, ''Co-op vs Bots''), (5, ''Team Match'')]"

definition source_lobby_type_labels :: "(int \<times> string) list" where
  "source_lobby_type_labels =
     [(0, ''Public Match''), (1, ''Practice Match''), (2, ''Tournament Match''),
      (3, ''Tutorial''), (4, ''Co-op Bot Match''), (5, ''Team Match'')]"

definition label_or_number :: "(int \<times> string) list \<Rightarrow> int \<Rightarrow> string" where
  "label_or_number table code =
     (case map_of table code of Some l \<Rightarrow> l | None \<Rightarrow> py_str code)"

subsection \<open>Python exceptions\<close>

datatype py_error = IndexError | KeyError string | ConversionError | OverflowError

subsection \<open>Querysets\<close>

text \<open>
  A table is the list of its rows in storage order. \<^verbatim>\<open>filter(p)\<close> keeps the rows
  satisfying \<open>p\<close>, \<^verbatim>\<open>exclude(p)\<close> the others, \<^verbatim>\<open>order_by(f)\<close> sorts ascending by
  the field (the database leaves the order of rows with equal keys open; the model keeps
  their storage order), \<^verbatim>\<open>[:n]\<close> is \<open>take n\<close>, and \<^verbatim>\<open>[0]\<close> raises IndexError on an
  empty result.
\<close>

definition qs_filter :: "('r \<Rightarrow> bool) \<Rightarrow> 'r list \<Rightarrow> 'r list" where
  "qs_filter p rows = filter p rows"

definition qs_exclude :: "('r \<Rightarrow> bool) \<Rightarrow> 'r list \<Rightarrow> 'r list" where
  "qs_exclude p rows = filter (\<lambda>r. \<not> p r) rows"

definition qs_order_by :: "('r \<Rightarrow> int) \<Rightarrow> 'r list \<Rightarrow> 'r list" where
  "qs_order_by f rows = sort_key f rows"

definition qs_first :: "'r list \<Rightarrow> py_error + 'r" where
  "qs_first rows = (case rows of [] \<Rightarrow> Inl IndexError | r # _ \<Rightarrow> Inr r)"

subsection \<open>SteamPlayer\<close>

record SteamPlayer =
  sp_steamid :: int
  sp_last_refresh :: int
  sp_personaname :: string
  sp_profileurl :: string
  sp_avatar :: string
  sp_avatarmedium :: string
  sp_avatarfull :: string
  sp_lastlogoff :: "int option"

text \<open>
  \<^verbatim>\<open>SteamPlayer.get_refresh()\<close>, lines 104 to 110. The clock \<^verbatim>\<open>timezone.now()\<close>, the
  setting \<^verbatim>\<open>PLAYER_FRESHNESS\<close> and the table are parameters.
\<close>

definition SteamPlayer_get_refresh :: "int \<Rightarrow> int \<Rightarrow> SteamPlayer list \<Rightarrow> SteamPlayer list" where
  "SteamPlayer_get_refresh now PLAYER_FRESHNESS objects =
     take 100 (qs_order_by sp_last_refresh
       (qs_filter (\<lambda>p. sp_last_refresh p < now - PLAYER_FRESHNESS) objects))"

subsection \<open>MatchDetails\<close>

record MatchDetails =
  md_match_id :: int
  md_last_refresh :: int
  md_match_seq_num :: int
  md_season :: int
  md_radiant_win :: bool
  md_duration :: int
  md_start_time :: int
  md_tower_status_radiant :: int
  md_tower_status_dire :: int
  md_barracks_status_radiant :: int
  md_barracks_status_dire :: int
  md_cluster :: int
  md_first_blood_time :: int
  md_lobby_type :: int
  md_human_players :: int
  md_leagueid :: int
  md_positive_votes :: int
  md_negative_votes :: int
  md_game_mode :: int

text \<open>
  \<^verbatim>\<open>MatchDetails.exclude_low_priority()\<close>, lines 259 to 265: the \<^verbatim>\<open>Q\<close> expression,
  and the queryset, which comes in the model's default order \<^verbatim>\<open>('-match_id',)\<close>.
\<close>

definition low_priority_Q :: "MatchDetails \<Rightarrow> bool" where
  "low_priority_Q m =
     (md_lobby_type m = 4 \<or> md_human_players m < 10 \<or> md_duration m < 480
      \<or> (md_tower_status_dire m = 2047 \<and> md_tower_status_radiant m = 2047))"

definition MatchDetails_exclude_low_priority :: "MatchDetails list \<Rightarrow> MatchDetails list" where
  "MatchDetails_exclude_low_priority objects =
     qs_order_by (\<lambda>m. - md_match_id m) (qs_exclude low_priority_Q objects)"

text \<open>
  \<^verbatim>\<open>MatchDetails.get_refresh()\<close>, lines 267 to 278: the first row of the ordered
  queryset, with the IndexError of an empty queryset caught and turned into None.
\<close>

definition MatchDetails_get_refresh ::
  "int \<Rightarrow> int \<Rightarrow> MatchDetails list \<Rightarrow> py_error + MatchDetails option" where
  "MatchDetails_get_refresh now MATCH_FRESHNESS objects =
     (case qs_first (qs_order_by md_last_refresh
             (qs_filter (\<lambda>m. md_last_refresh m < now - MATCH_FRESHNESS) objects)) of
        Inr m \<Rightarrow> Inr (Some m)
      | Inl IndexError \<Rightarrow> Inr None
      | Inl e \<Rightarrow> Inl e)"

text \<open>Rows to evaluate the operations on.\<close>

definition example_player :: "int \<Rightarrow> int \<Rightarrow> SteamPlayer" where
  "example_player sid refreshed =
     \<lparr>sp_steamid = sid, sp_last_refresh = refreshed, sp_personaname = ''player'',
      sp_profileurl = [], sp_avatar = [], sp_avatarmedium = [], sp_avatarfull = [],
      sp_lastlogoff = None\<rparr>"

definition example_match ::
  "int \<Rightarrow> int \<Rightarrow> int \<Rightarrow> int \<Rightarrow> int \<Rightarrow> int \<Rightarrow> int \<Rightarrow> MatchDetails" where
  "example_match mid refreshed lobby humans seconds radiant dire =
     \<lparr>md_match_id = mid, md_last_refresh = refreshed, md_match_seq_num = mid, md_season = 0,
      md_radiant_win = True, md_duration = seconds, md_start_time = 0,
      md_tower_status_radiant = radiant, md_tower_status_dire = dire,
      md_barracks_status_radiant = 63, md_barracks_status_dire = 63, md_cluster = 0,
      md_first_blood_time = 0, md_lobby_type = lobby, md_human_players = humans,
      md_leagueid = 0, md_positive_votes = 0, md_negative_votes = 0, md_game_mode = 1\<rparr>"

subsection \<open>MatchSequenceNumber\<close>

text \<open>
  The table of \<^verbatim>\<open>MatchSequenceNumber\<close> rows, lines 420 to 433, as a map from the primary
  key to the row's \<^verbatim>\<open>last_match_seq_num\<close>. \<^verbatim>\<open>get_or_create(pk=1)\<close> returns the row with
  key 1, inserting it with the field's default 0 when there is none, and says whether it
  inserted; \<^verbatim>\<open>MatchSequenceNumber(pk=1, ...).save()\<close> updates the row with key 1 or
  inserts it. The column is a \<^verbatim>\<open>BigIntegerField\<close>, a signed 64-bit integer: saving a
  value outside its range raises and leaves the table as it was.
\<close>

type_synonym MatchSequenceNumber_table = "int \<rightharpoonup> int"

definition BigIntegerField_range :: "int \<Rightarrow> bool" where
  "BigIntegerField_range v = (- (2 ^ 63) \<le> v \<and> v < 2 ^ 63)"

definition get_or_create_pk1 ::
  "MatchSequenceNumber_table \<Rightarrow> (int \<times> bool) \<times> MatchSequenceNumber_table" where
  "get_or_create_pk1 objects =
     (case objects 1 of
        Some last_match_seq_num \<Rightarrow> ((last_match_seq_num, False), objects)
      | None \<Rightarrow> ((0, True), objects(1 \<mapsto> 0)))"

definition get_last_match_seq_num ::
  "MatchSequenceNumber_table \<Rightarrow> int \<times> MatchSequenceNumber_table" where
  "get_last_match_seq_num objects =
     (case get_or_create_pk1 objects of ((last_match_seq_num, created), objects') \<Rightarrow>
        (last_match_seq_num, objects'))"

definition set_last_match_seq_num ::
  "int \<Rightarrow> MatchSequenceNumber_table \<Rightarrow> py_error + MatchSequenceNumber_table" where
  "set_last_match_seq_num last_seq_num objects =
     (if BigIntegerField_range last_seq_num then Inr (objects(1 \<mapsto> last_seq_num))
      else Inl OverflowError)"

text \<open>
  Any sequence of calls of the two static methods, run from a table. A call that raises
  leaves the table to the calls after it.
\<close>

datatype cursor_call = Get_last | Set_last int

fun run_cursor_calls ::
  "cursor_call list \<Rightarrow> MatchSequenceNumber_table \<Rightarrow> MatchSequenceNumber_table" where
  "run_cursor_calls [] objects = objects"
| "run_cursor_calls (Get_last # cs) objects =
     run_cursor_calls cs (snd (get_last_match_seq_num objects))"
| "run_cursor_calls (Set_last v # cs) objects =
     run_cursor_calls cs
       (case set_last_match_seq_num v objects of Inr objects' \<Rightarrow> objects' | Inl e \<Rightarrow> objects)"

text \<open>
  What a cursor read should give after a sequence of calls, in the words of the
  specification (a singleton holding the last-processed sequence number, initialised to 0):
  the value of the last write that was stored, and the initial value when there was none.
\<close>

fun cursor_after :: "int \<Rightarrow> cursor_call list \<Rightarrow> int" where
  "cursor_after c [] = c"
| "cursor_after c (Get_last # cs) = cursor_after c cs"
| "cursor_after c (Set_last v # cs) =
     cursor_after (if BigIntegerField_range v then v else c) cs"

subsection \<open>Parsed JSON\<close>

text \<open>
  The upstream records arrive as parsed JSON objects: Python dictionaries from keys to
  \<^verbatim>\<open>None\<close>, booleans, integers, strings, lists and dictionaries (numbers with a fraction
  are left out). \<^verbatim>\<open>json.get(key, None)\<close> gives \<^verbatim>\<open>None\<close> for a missing key,
  \<^verbatim>\<open>json[key]\<close> raises KeyError. Python's \<^verbatim>\<open>==\<close> between a value and an integer
  holds for the equal integer and for the boolean of that value (\<^verbatim>\<open>False == 0\<close>);
  \<^verbatim>\<open>== None\<close> holds for \<^verbatim>\<open>None\<close> only.
\<close>

datatype json =
  JNull | JBool bool | JInt int | JStr string | JList "json list" | JDict "(string \<times> json) list"

type_synonym json_dict = "string \<rightharpoonup> json"

definition dict_get :: "json_dict \<Rightarrow> string \<Rightarrow> json" where
  "dict_get d key = (case d key of None \<Rightarrow> JNull | Some v \<Rightarrow> v)"

definition dict_item :: "json_dict \<Rightarrow> string \<Rightarrow> py_error + json" where
  "dict_item d key = (case d key of None \<Rightarrow> Inl (KeyError key) | Some v \<Rightarrow> Inr v)"

fun py_eq_int :: "json \<Rightarrow> int \<Rightarrow> bool" where
  "py_eq_int (JInt i) n = (i = n)"
| "py_eq_int (JBool b) n = ((if b then 1 else 0) = n)"
| "py_eq_int _ n = False"

definition py_eq_None :: "json \<Rightarrow> bool" where
  "py_eq_None v = (v = JNull)"

text \<open>Sequencing of computations that may raise: the first exception ends the call.\<close>

definition bind_err :: "py_error + 'a \<Rightarrow> ('a \<Rightarrow> py_error + 'b) \<Rightarrow> py_error + 'b" where
  "bind_err x f = (case x of Inl e \<Rightarrow> Inl e | Inr v \<Rightarrow> f v)"

subsection \<open>Identity Resolver\<close>

text \<open>
  Modelled from the spec: \<^verbatim>\<open>steamapi.convertAccountNumbertoSteam64\<close> and the conversion
  back live in \<^verbatim>\<open>dotastats/json/steamapi.py\<close>, which is not among the sources. Section
  4.1 of the specification: given a 32-bit in-game account number, or its absence, produce
  the 64-bit platform identifier, or a null identity if absent; a fixed numeric offset
  performs the conversion; malformed input fails with a conversion error. The offset is a
  parameter. A value that is neither absent nor an integer counts as malformed.
\<close>

definition convertAccountNumbertoSteam64 :: "int \<Rightarrow> json \<Rightarrow> py_error + int option" where
  "convertAccountNumbertoSteam64 offset accountnumber =
     (case accountnumber of
        JNull \<Rightarrow> Inr None
      | JInt a \<Rightarrow> Inr (Some (a + offset))
      | _ \<Rightarrow> Inl ConversionError)"

definition convertSteam64toAccountNumber :: "int \<Rightarrow> int option \<Rightarrow> int option" where
  "convertSteam64toAccountNumber offset steam64 =
     (case steam64 of None \<Rightarrow> None | Some s \<Rightarrow> Some (s - offset))"

subsection \<open>MatchHistoryQueue and its players\<close>

record MatchHistoryQueue =
  mhq_match_id :: int
  mhq_last_refresh :: int
  mhq_match_seq_num :: int
  mhq_start_time :: int
  mhq_lobby_type :: int

text \<open>
  A model instance built by a constructor holds the values it was given: the fields taken
  from the JSON record are JSON values.
\<close>

record MatchHistoryQueuePlayers =
  qp_match_history_queue :: MatchHistoryQueue
  qp_account_id_id :: "int option"
  qp_player_slot :: json
  qp_hero_id_id :: json
  qp_is_bot :: bool

text \<open>
  \<^verbatim>\<open>MatchHistoryQueuePlayers.from_json_response(match_history_queue, json)\<close>, lines 183
  to 190. The keyword arguments are evaluated in the order written. The identity
  conversion of \<^verbatim>\<open>steamapi\<close> is the parameter \<open>convert\<close>.
\<close>

definition MatchHistoryQueuePlayers_from_json_response ::
  "(json \<Rightarrow> py_error + int option) \<Rightarrow> MatchHistoryQueue \<Rightarrow> json_dict
     \<Rightarrow> py_error + MatchHistoryQueuePlayers" where
  "MatchHistoryQueuePlayers_from_json_response convert match_history_queue j =
     bind_err (convert (dict_get j ''account_id'')) (\<lambda>account_id_id.
     bind_err (dict_item j ''player_slot'') (\<lambda>player_slot.
     bind_err (dict_item j ''hero_id'') (\<lambda>hero_id_id.
       Inr \<lparr>qp_match_history_queue = match_history_queue,
            qp_account_id_id = account_id_id,
            qp_player_slot = player_slot,
            qp_hero_id_id = hero_id_id,
            qp_is_bot = (if py_eq_None (dict_get j ''account_id'') then True else False)\<rparr>)))"

subsection \<open>MatchDetailsPlayerEntry\<close>

record MatchDetailsPlayerEntry =
  pe_match_details :: MatchDetails
  pe_account_id_id :: "int option"
  pe_player_slot :: json
  pe_hero_id_id :: json
  pe_item_0_id :: json
  pe_item_1_id :: json
  pe_item_2_id :: json
  pe_item_3_id :: json
  pe_item_4_id :: json
  pe_item_5_id :: json
  pe_kills :: json
  pe_deaths :: json
  pe_assists :: json
  pe_leaver_status :: json
  pe_gold :: json
  pe_last_hits :: json
  pe_denies :: json
  pe_gold_per_min :: json
  pe_xp_per_min :: json
  pe_gold_spent :: json
  pe_hero_damage :: json
  pe_tower_damage :: json
  pe_hero_healing :: json
  pe_level :: json
  pe_ability_upgrades :: json
  pe_additional_units :: json
  pe_is_bot :: bool

text \<open>
  \<^verbatim>\<open>MatchDetailsPlayerEntry.from_json_response(match_details, json)\<close>, lines 383 to 414:
  None for a record whose \<^verbatim>\<open>hero_id\<close> equals 0, otherwise the entry.
\<close>

definition MatchDetailsPlayerEntry_from_json_response ::
  "(json \<Rightarrow> py_error + int option) \<Rightarrow> MatchDetails \<Rightarrow> json_dict
     \<Rightarrow> py_error + MatchDetailsPlayerEntry option" where
  "MatchDetailsPlayerEntry_from_json_response convert match_details j =
     bind_err (dict_item j ''hero_id'') (\<lambda>hero.
     if py_eq_int hero 0 then Inr None
     else
     bind_err (convert (dict_get j ''account_id'')) (\<lambda>account_id_id.
     bind_err (dict_item j ''player_slot'') (\<lambda>player_slot.
     bind_err (dict_item j ''hero_id'') (\<lambda>hero_id_id.
     bind_err (dict_item j ''item_0'') (\<lambda>item_0_id.
     bind_err (dict_item j ''item_1'') (\<lambda>item_1_id.
     bind_err (dict_item j ''item_2'') (\<lambda>item_2_id.
     bind_err (dict_item j ''item_3'') (\<lambda>item_3_id.
     bind_err (dict_item j ''item_4'') (\<lambda>item_4_id.
     bind_err (dict_item j ''item_5'') (\<lambda>item_5_id.
     bind_err (dict_item j ''kills'') (\<lambda>kills.
     bind_err (dict_item j ''deaths'') (\<lambda>deaths.
     bind_err (dict_item j ''assists'') (\<lambda>assists.
     bind_err (dict_item j ''gold'') (\<lambda>gold.
     bind_err (dict_item j ''last_hits'') (\<lambda>last_hits.
     bind_err (dict_item j ''denies'') (\<lambda>denies.
     bind_err (dict_item j ''gold_per_min'') (\<lambda>gold_per_min.
     bind_err (dict_item j ''xp_per_min'') (\<lambda>xp_per_min.
     bind_err (dict_item j ''gold_spent'') (\<lambda>gold_spent.
     bind_err (dict_item j ''hero_damage'') (\<lambda>hero_damage.
     bind_err (dict_item j ''tower_damage'') (\<lambda>tower_damage.
     bind_err (dict_item j ''hero_healing'') (\<lambda>hero_healing.
     bind_err (dict_item j ''level'') (\<lambda>level.
       Inr (Some
         \<lparr>pe_match_details = match_details,
          pe_account_id_id = account_id_id,
          pe_player_slot = player_slot,
          pe_hero_id_id = hero_id_id,
          pe_item_0_id = item_0_id,
          pe_item_1_id = item_1_id,
          pe_item_2_id = item_2_id,
          pe_item_3_id = item_3_id,
          pe_item_4_id = item_4_id,
          pe_item_5_id = item_5_id,
          pe_kills = kills,
          pe_deaths = deaths,
          pe_assists = assists,
          pe_leaver_status = dict_get j ''leaver_status'',
          pe_gold = gold,
          pe_last_hits = last_hits,
          pe_denies = denies,
          pe_gold_per_min = gold_per_min,
          pe_xp_per_min = xp_per_min,
          pe_gold_spent = gold_spent,
          pe_hero_damage = hero_damage,
          pe_tower_damage = tower_damage,
          pe_hero_healing = hero_healing,
          pe_level = level,
          pe_ability_upgrades = dict_get j ''ability_upgrades'',
          pe_additional_units = dict_get j ''additional_units'',
          pe_is_bot = (if py_eq_None (dict_get j ''account_id'')
                         \<or> py_eq_None (dict_get j ''leaver_status'')
                       then True else False)\<rparr>))))))))))))))))))))))))"

text \<open>
  The keys that the two constructors read with \<^verbatim>\<open>json[key]\<close>, which raises KeyError on a
  record without the key; \<^verbatim>\<open>account_id\<close>, \<^verbatim>\<open>leaver_status\<close>, \<^verbatim>\<open>ability_upgrades\<close> and
  \<^verbatim>\<open>additional_units\<close> are read with \<^verbatim>\<open>json.get\<close> and may be missing.
\<close>

definition MatchHistoryQueuePlayers_required_keys :: "string list" where
  "MatchHistoryQueuePlayers_required_keys = [''player_slot'', ''hero_id'']"

definition MatchDetailsPlayerEntry_required_keys :: "string list" where
  "MatchDetailsPlayerEntry_required_keys =
     [''hero_id'', ''player_slot'', ''item_0'', ''item_1'', ''item_2'', ''item_3'', ''item_4'',
      ''item_5'', ''kills'', ''deaths'', ''assists'', ''gold'', ''last_hits'', ''denies'',
      ''gold_per_min'', ''xp_per_min'', ''gold_spent'', ''hero_damage'', ''tower_damage'',
      ''hero_healing'', ''level'']"

text \<open>Records to evaluate the constructors on.\<close>

definition example_queue :: MatchHistoryQueue where
  "example_queue =
     \<lparr>mhq_match_id = 1, mhq_last_refresh = 0, mhq_match_seq_num = 1, mhq_start_time = 0,
      mhq_lobby_type = 0\<rparr>"

definition example_detail_player :: "json \<Rightarrow> json_dict" where
  "example_detail_player hero =
     map_of [(''player_slot'', JInt 0), (''hero_id'', hero),
       (''item_0'', JInt 0), (''item_1'', JInt 0), (''item_2'', JInt 0), (''item_3'', JInt 0),
       (''item_4'', JInt 0), (''item_5'', JInt 0), (''kills'', JInt 3), (''deaths'', JInt 1),
       (''assists'', JInt 4), (''gold'', JInt 100), (''last_hits'', JInt 50),
       (''denies'', JInt 2), (''gold_per_min'', JInt 300), (''xp_per_min'', JInt 250),
       (''gold_spent'', JInt 9000), (''hero_damage'', JInt 5000), (''tower_damage'', JInt 100),
       (''hero_healing'', JInt 0), (''level'', JInt 11)]"

section \<open>Properties\<close>

subsection \<open>Decimal strings\<close>

lemma str_nat_small: "n < 10 \<Longrightarrow> str_nat n = [digit_char n]"
  by (subst str_nat.simps) simp

lemma str_nat_big: "\<not> n < 10 \<Longrightarrow> str_nat n = str_nat (n div 10) @ [digit_char (n mod 10)]"
  by (subst str_nat.simps) simp

lemma below_ten: "d < 10 \<Longrightarrow> d \<in> {0, 1, 2, 3, 4, 5, 6, 7, 8, 9::nat}"
  by auto

lemma digit_val_digit_char: "d < 10 \<Longrightarrow> digit_val (digit_char d) = d"
  by (drule below_ten) (auto simp: digit_val_def digit_char_def)

lemma is_digit_digit_char: "d < 10 \<Longrightarrow> is_digit (digit_char d)"
  by (drule below_ten) (auto simp: is_digit_def digit_char_def)

lemma dec_val_snoc: "dec_val (s @ [c]) = 10 * dec_val s + digit_val c"
  by (simp add: dec_val_def)

lemma dec_val_str_nat: "dec_val (str_nat n) = n"
proof (induction n rule: str_nat.induct)
  case (1 n)
  show ?case
  proof (cases "n < 10")
    case True
    then show ?thesis
      by (simp add: str_nat_small dec_val_def digit_val_digit_char)
  next
    case False
    then have "dec_val (str_nat n) = 10 * (n div 10) + n mod 10"
      using "1.IH" by (simp add: str_nat_big dec_val_snoc digit_val_digit_char)
    then show ?thesis by simp
  qed
qed

lemma str_nat_digits: "\<forall>c \<in> set (str_nat n). is_digit c"
proof (induction n rule: str_nat.induct)
  case (1 n)
  show ?case
  proof (cases "n < 10")
    case True
    then show ?thesis by (simp add: str_nat_small is_digit_digit_char)
  next
    case False
    then show ?thesis
      using "1.IH" by (simp add: str_nat_big is_digit_digit_char)
  qed
qed

lemma str_nat_not_empty: "str_nat n \<noteq> []"
  by (subst str_nat.simps) simp

lemma str_nat_hd_not_minus: "hd (str_nat n) \<noteq> CHR ''-''"
proof -
  have "hd (str_nat n) \<in> set (str_nat n)"
    by (simp add: str_nat_not_empty)
  then have "is_digit (hd (str_nat n))"
    using str_nat_digits by blast
  then show ?thesis
    by (auto simp: is_digit_def)
qed

lemma parse_int_py_str: "parse_int (py_str i) = i"
proof (cases "i < 0")
  case True
  then show ?thesis
    by (simp add: py_str_def parse_int_def dec_val_str_nat)
next
  case False
  obtain c cs where s: "str_nat (nat i) = c # cs"
    using str_nat_not_empty [of "nat i"] by (cases "str_nat (nat i)") auto
  have "c \<noteq> CHR ''-''"
    using str_nat_hd_not_minus [of "nat i"] s by simp
  moreover have "dec_val (c # cs) = nat i"
    using dec_val_str_nat [of "nat i"] s by simp
  ultimately show ?thesis
    using False s by (simp add: py_str_def parse_int_def)
qed

lemma py_str_99: "py_str 99 = ''99''"
  by (simp add: py_str_def str_nat_big str_nat_small digit_char_def)

subsection \<open>Game-mode and lobby-type labels\<close>

text \<open>
  C8. For every integer game-mode code, \<open>get_game_type\<close> returns the label that the
  specification's table gives for the codes 1 to 13, and the decimal string of the code
  for every other code; code 2 is "Captain's Mode" and code 99 is "99". The decimal
  string reads back as the code.
\<close>

theorem get_game_type_labels:
  "get_game_type code = label_or_number spec_game_mode_labels code
   \<and> (code < 1 \<or> 13 < code \<longrightarrow>
        get_game_type code = py_str code \<and> parse_int (get_game_type code) = code)
   \<and> get_game_type 2 = ''Captain's Mode''
   \<and> get_game_type 99 = ''99''"
proof -
  have a: "get_game_type code = label_or_number spec_game_mode_labels code"
    by (simp add: get_game_type_def label_or_number_def spec_game_mode_labels_def)
  have b: "code < 1 \<or> 13 < code \<longrightarrow>
      get_game_type code = py_str code \<and> parse_int (get_game_type code) = code"
    by (auto simp: get_game_type_def parse_int_py_str)
  have c: "get_game_type 2 = ''Captain's Mode''"
    by (simp add: get_game_type_def)
  have d: "get_game_type 99 = ''99''"
    by (simp add: get_game_type_def py_str_99)
  from a b c d show ?thesis by blast
qed

theorem get_game_type_labels_witness:
  "(13::int) < 2014 \<and> get_game_type 2014 = ''2014'' \<and> get_game_type 13 = ''New Player Pool''"
proof -
  have "get_game_type 2014 = py_str 2014"
    using get_game_type_labels [of 2014] by linarith
  moreover have "py_str 2014 = ''2014''"
    by (simp add: py_str_def str_nat_big str_nat_small digit_char_def)
  moreover have "get_game_type 13 = ''New Player Pool''"
    using get_game_type_labels [of 13]
    by (simp add: label_or_number_def spec_game_mode_labels_def)
  ultimately show ?thesis by simp
qed

text \<open>
  C9, as stated: \<open>get_lobby_type\<close> returns the specification's labels (0 = Public,
  1 = Practice, 2 = Tournament, 3 = Tutorial, 4 = Co-op vs Bots, 5 = Team Match). The
  source returns other strings for the codes 0, 1, 2 and 4: code 0 gives "Public Match".
\<close>

theorem get_lobby_type_spec_labels_counterexample:
  "get_lobby_type 0 \<noteq> label_or_number spec_lobby_type_labels 0
   \<and> get_lobby_type 0 = ''Public Match''
   \<and> label_or_number spec_lobby_type_labels 0 = ''Public''
   \<and> get_lobby_type 4 = ''Co-op Bot Match''
   \<and> label_or_number spec_lobby_type_labels 4 = ''Co-op vs Bots''"
  by (simp add: get_lobby_type_def label_or_number_def spec_lobby_type_labels_def)

text \<open>
  C9, amended: for every integer lobby-type code, \<open>get_lobby_type\<close> returns the label
  0 = Public Match, 1 = Practice Match, 2 = Tournament Match, 3 = Tutorial,
  4 = Co-op Bot Match, 5 = Team Match, and the decimal string of the code for every code
  outside 0..5.
\<close>

theorem get_lobby_type_labels:
  "get_lobby_type code = label_or_number source_lobby_type_labels code
   \<and> (code < 0 \<or> 5 < code \<longrightarrow>
        get_lobby_type code = py_str code \<and> parse_int (get_lobby_type code) = code)"
proof -
  have a: "get_lobby_type code = label_or_number source_lobby_type_labels code"
    by (simp add: get_lobby_type_def label_or_number_def source_lobby_type_labels_def)
  have b: "code < 0 \<or> 5 < code \<longrightarrow>
      get_lobby_type code = py_str code \<and> parse_int (get_lobby_type code) = code"
    by (auto simp: get_lobby_type_def parse_int_py_str)
  from a b show ?thesis by blast
qed

theorem get_lobby_type_labels_witness:
  "(5::int) < 7 \<and> get_lobby_type 7 = ''7'' \<and> get_lobby_type 4 = ''Co-op Bot Match''"
proof -
  have "get_lobby_type 7 = py_str 7"
    using get_lobby_type_labels [of 7] by linarith
  moreover have "py_str 7 = ''7''"
    by (simp add: py_str_def str_nat_small digit_char_def)
  moreover have "get_lobby_type 4 = ''Co-op Bot Match''"
    using get_lobby_type_labels [of 4]
    by (simp add: label_or_number_def source_lobby_type_labels_def)
  ultimately show ?thesis by simp
qed

subsection \<open>Low-priority exclusion\<close>

lemma set_qs_order_by: "set (qs_order_by f rows) = set rows"
  by (simp add: qs_order_by_def)

lemma sorted_qs_order_by: "sorted (map f (qs_order_by f rows))"
  by (simp add: qs_order_by_def)

text \<open>
  C4. A stored Match row is left out by \<open>MatchDetails_exclude_low_priority\<close> if and only
  if its lobby type is 4, or it has fewer than 10 human players, or it lasted less than
  480 seconds, or both tower masks are 2047. A match with 10 human players, 481 seconds,
  lobby type 0 and tower masks not both 2047 is kept; a match of 479 seconds is left out
  whatever its other fields are.
\<close>

theorem exclude_low_priority_iff:
  "(m \<in> set objects \<longrightarrow>
      (m \<notin> set (MatchDetails_exclude_low_priority objects)) =
      (md_lobby_type m = 4 \<or> md_human_players m < 10 \<or> md_duration m < 480
       \<or> (md_tower_status_radiant m = 2047 \<and> md_tower_status_dire m = 2047)))
   \<and> set (MatchDetails_exclude_low_priority objects) \<subseteq> set objects
   \<and> (m \<in> set objects \<and> md_human_players m = 10 \<and> md_duration m = 481
        \<and> md_lobby_type m = 0
        \<and> \<not> (md_tower_status_radiant m = 2047 \<and> md_tower_status_dire m = 2047) \<longrightarrow>
      m \<in> set (MatchDetails_exclude_low_priority objects))
   \<and> (md_duration m = 479 \<longrightarrow> m \<notin> set (MatchDetails_exclude_low_priority objects))"
  by (auto simp: MatchDetails_exclude_low_priority_def set_qs_order_by qs_exclude_def
      low_priority_Q_def)

theorem exclude_low_priority_iff_witness:
  "example_match 1 0 0 10 481 2047 2046
     \<in> set (MatchDetails_exclude_low_priority
         [example_match 1 0 0 10 481 2047 2046, example_match 2 0 0 10 479 0 0])
   \<and> example_match 2 0 0 10 479 0 0
     \<notin> set (MatchDetails_exclude_low_priority
         [example_match 1 0 0 10 481 2047 2046, example_match 2 0 0 10 479 0 0])"
  using
    exclude_low_priority_iff [of "example_match 1 0 0 10 481 2047 2046"
      "[example_match 1 0 0 10 481 2047 2046, example_match 2 0 0 10 479 0 0]"]
    exclude_low_priority_iff [of "example_match 2 0 0 10 479 0 0"
      "[example_match 1 0 0 10 481 2047 2046, example_match 2 0 0 10 479 0 0]"]
  by (simp add: example_match_def)

subsection \<open>Freshness policy\<close>

lemma take_sort_key_length: "length (take n (sort_key f xs)) = min n (length xs)"
  by (simp add: min.commute)

lemma take_sort_key_sorted: "sorted (map f (take n (sort_key f xs)))"
proof -
  have "sorted (take n (map f (sort_key f xs)))"
    by (rule sorted_wrt_take) simp
  then show ?thesis by (simp add: take_map)
qed

lemma take_mset_subset: "mset (take n ys) \<subseteq># mset ys"
proof -
  have "mset ys = mset (take n ys) + mset (drop n ys)"
    by (metis append_take_drop_id mset_append)
  then show ?thesis by simp
qed

lemma take_sort_key_subset: "set (take n (sort_key f xs)) \<subseteq> set xs"
  using set_take_subset [of n "sort_key f xs"] by simp

lemma take_sort_key_rest:
  assumes "x \<in> set xs" and "x \<notin> set (take n (sort_key f xs))"
  shows "n < length xs \<and> (\<forall>y \<in> set (take n (sort_key f xs)). f y \<le> f x)"
proof -
  let ?s = "sort_key f xs"
  have "x \<in> set (take n ?s @ drop n ?s)"
    using assms(1) by simp
  then have in_drop: "x \<in> set (drop n ?s)"
    using assms(2) by (simp only: set_append) blast
  then have "drop n ?s \<noteq> []" by auto
  then have len: "n < length xs" by simp
  have "sorted (map f (take n ?s @ drop n ?s))" by simp
  then have "\<forall>y \<in> set (take n ?s). \<forall>z \<in> set (drop n ?s). f y \<le> f z"
    by (simp only: map_append sorted_append set_map) blast
  then show ?thesis using in_drop len by blast
qed

text \<open>
  C1. With \<open>due p\<close> meaning that the row's last refresh is older than \<open>now\<close> minus the
  player TTL, \<open>SteamPlayer_get_refresh\<close> returns \<open>min 100 k\<close> rows when \<open>k\<close> rows are due,
  oldest first, each of them a stored row that is due (so never a row within the TTL);
  a due row that is left out is left out only because of the cap of 100, and is at least as
  recent as every returned row; when at most 100 rows are due the result holds exactly the
  due rows; when none is due the result is empty.
\<close>

theorem SteamPlayer_get_refresh_due:
  "let due = (\<lambda>p::SteamPlayer. sp_last_refresh p < now - ttl);
       res = SteamPlayer_get_refresh now ttl objects in
     length res = min 100 (length (filter due objects))
     \<and> sorted (map sp_last_refresh res)
     \<and> mset res \<subseteq># mset (filter due objects)
     \<and> (\<forall>p \<in> set res. p \<in> set objects \<and> due p)
     \<and> (\<forall>p \<in> set objects. due p \<and> p \<notin> set res \<longrightarrow>
          length res = 100 \<and> (\<forall>q \<in> set res. sp_last_refresh q \<le> sp_last_refresh p))
     \<and> (length (filter due objects) \<le> 100 \<longrightarrow> set res = {p \<in> set objects. due p})
     \<and> ((\<forall>p \<in> set objects. \<not> due p) \<longrightarrow> res = [])"
proof -
  define due where "due = (\<lambda>p::SteamPlayer. sp_last_refresh p < now - ttl)"
  define F where "F = filter due objects"
  define res where "res = take 100 (sort_key sp_last_refresh F)"
  have res_eq: "SteamPlayer_get_refresh now ttl objects = res"
    by (simp add: SteamPlayer_get_refresh_def qs_order_by_def qs_filter_def res_def F_def due_def)
  have c1: "length res = min 100 (length F)"
    unfolding res_def by (rule take_sort_key_length)
  have c2: "sorted (map sp_last_refresh res)"
    unfolding res_def by (rule take_sort_key_sorted)
  have c3: "mset res \<subseteq># mset F"
    using take_mset_subset [of 100 "sort_key sp_last_refresh F"] by (simp add: res_def)
  have sub: "set res \<subseteq> set F"
    unfolding res_def by (rule take_sort_key_subset)
  have c4: "\<forall>p \<in> set res. p \<in> set objects \<and> due p"
    using sub by (auto simp: F_def)
  have c5: "\<forall>p \<in> set objects. due p \<and> p \<notin> set res \<longrightarrow>
      length res = 100 \<and> (\<forall>q \<in> set res. sp_last_refresh q \<le> sp_last_refresh p)"
  proof (intro ballI impI)
    fix p assume p: "p \<in> set objects" and "due p \<and> p \<notin> set res"
    then have "p \<in> set F" and "p \<notin> set (take 100 (sort_key sp_last_refresh F))"
      by (simp_all add: F_def res_def)
    then have "100 < length F \<and> (\<forall>q \<in> set res. sp_last_refresh q \<le> sp_last_refresh p)"
      unfolding res_def by (rule take_sort_key_rest)
    then show "length res = 100 \<and> (\<forall>q \<in> set res. sp_last_refresh q \<le> sp_last_refresh p)"
      using c1 by simp
  qed
  have c6: "length F \<le> 100 \<longrightarrow> set res = {p \<in> set objects. due p}"
    by (auto simp: res_def F_def)
  have c7: "(\<forall>p \<in> set objects. \<not> due p) \<longrightarrow> res = []"
    by (simp add: res_def F_def)
  from c1 c2 c3 c4 c5 c6 c7 show ?thesis
    unfolding Let_def res_eq due_def [symmetric] F_def [symmetric] by blast
qed

theorem SteamPlayer_get_refresh_due_witness:
  "SteamPlayer_get_refresh 100 10
     [example_player 1 50, example_player 2 10, example_player 3 95]
     = [example_player 2 10, example_player 1 50]
   \<and> map sp_last_refresh (SteamPlayer_get_refresh 100 10
          [example_player 1 50, example_player 2 10, example_player 3 95]) = [10, 50]
   \<and> example_player 3 95
      \<notin> set (SteamPlayer_get_refresh 100 10
          [example_player 1 50, example_player 2 10, example_player 3 95])
   \<and> SteamPlayer_get_refresh 100 10 [example_player 3 95] = []
   \<and> length (SteamPlayer_get_refresh 1000 0
          (map (\<lambda>i. example_player (int i) 0) [0..<150])) = 100"
proof -
  let ?objs = "map (\<lambda>i. example_player (int i) 0) [0..<150]"
  have small: "SteamPlayer_get_refresh 100 10
       [example_player 1 50, example_player 2 10, example_player 3 95]
       = [example_player 2 10, example_player 1 50]
     \<and> map sp_last_refresh (SteamPlayer_get_refresh 100 10
          [example_player 1 50, example_player 2 10, example_player 3 95]) = [10, 50]
     \<and> example_player 3 95
        \<notin> set (SteamPlayer_get_refresh 100 10
            [example_player 1 50, example_player 2 10, example_player 3 95])
     \<and> SteamPlayer_get_refresh 100 10 [example_player 3 95] = []"
    using SteamPlayer_get_refresh_due [of 100 10
        "[example_player 1 50, example_player 2 10, example_player 3 95]"]
      SteamPlayer_get_refresh_due [of 100 10 "[example_player 3 95]"]
    by (simp add: SteamPlayer_get_refresh_def qs_order_by_def qs_filter_def example_player_def)
  have all_due: "filter (\<lambda>p::SteamPlayer. sp_last_refresh p < 1000 - 0) ?objs = ?objs"
    by (simp add: filter_map comp_def example_player_def)
  have capped: "length (SteamPlayer_get_refresh 1000 0 ?objs) = 100"
    using SteamPlayer_get_refresh_due [of 1000 0 ?objs]
    unfolding Let_def all_due by simp
  from small capped show ?thesis by blast
qed

lemma qs_first_sorted:
  assumes "qs_first (sort_key f xs) = Inr x"
  shows "x \<in> set xs \<and> (\<forall>y \<in> set xs. f x \<le> f y)"
proof -
  obtain ys where s: "sort_key f xs = x # ys"
    using assms by (auto simp: qs_first_def split: list.splits)
  have "set (x # ys) = set xs"
    using s by (metis set_sort)
  moreover have "sorted (map f (x # ys))"
    using s by (metis sorted_sort_key)
  ultimately show ?thesis by auto
qed

lemma qs_first_empty: "(qs_first (sort_key f xs) = Inl e) = (xs = [] \<and> e = IndexError)"
proof (cases "sort_key f xs")
  case Nil
  then have "xs = []" by (metis length_sort length_0_conv)
  then show ?thesis by (auto simp: qs_first_def)
next
  case (Cons y ys)
  then have "xs \<noteq> []" by auto
  then show ?thesis using Cons by (simp add: qs_first_def)
qed

text \<open>
  C2. \<open>MatchDetails_get_refresh\<close> never raises: it returns None or one row. It returns
  None exactly when no stored Match row has a last refresh older than \<open>now\<close> minus the
  match TTL. A returned row is a stored row, is stale, and no stored row has a smaller
  last refresh.
\<close>

theorem MatchDetails_get_refresh_oldest:
  "(\<exists>r. MatchDetails_get_refresh now ttl objects = Inr r)
   \<and> ((MatchDetails_get_refresh now ttl objects = Inr None) =
        (\<forall>m \<in> set objects. \<not> md_last_refresh m < now - ttl))
   \<and> (\<forall>m. MatchDetails_get_refresh now ttl objects = Inr (Some m) \<longrightarrow>
        m \<in> set objects \<and> md_last_refresh m < now - ttl
        \<and> (\<forall>m' \<in> set objects. md_last_refresh m \<le> md_last_refresh m'))"
proof -
  define F where "F = filter (\<lambda>m::MatchDetails. md_last_refresh m < now - ttl) objects"
  define q where "q = qs_first (sort_key md_last_refresh F)"
  have eq: "MatchDetails_get_refresh now ttl objects =
      (case q of Inr m \<Rightarrow> Inr (Some m) | Inl IndexError \<Rightarrow> Inr None | Inl e \<Rightarrow> Inl e)"
    by (simp add: MatchDetails_get_refresh_def qs_order_by_def qs_filter_def q_def F_def)
  have none_iff: "(F = []) = (\<forall>m \<in> set objects. \<not> md_last_refresh m < now - ttl)"
    by (auto simp: F_def filter_empty_conv)
  show ?thesis
  proof (cases q)
    case (Inl e)
    then have "F = []" and "e = IndexError"
      using qs_first_empty [of md_last_refresh F e] by (simp_all add: q_def)
    then show ?thesis
      using Inl eq none_iff by simp
  next
    case (Inr m)
    then have m: "m \<in> set F \<and> (\<forall>y \<in> set F. md_last_refresh m \<le> md_last_refresh y)"
      using qs_first_sorted [of md_last_refresh F m] by (simp add: q_def)
    then have stale: "m \<in> set objects" "md_last_refresh m < now - ttl"
      by (simp_all add: F_def)
    have "md_last_refresh m \<le> md_last_refresh m'" if "m' \<in> set objects" for m'
    proof (cases "md_last_refresh m' < now - ttl")
      case True
      then have "m' \<in> set F" using that by (simp add: F_def)
      then show ?thesis using m by blast
    next
      case False
      then show ?thesis using stale(2) by linarith
    qed
    moreover have "F \<noteq> []" using m by auto
    ultimately show ?thesis
      using Inr eq none_iff stale by auto
  qed
qed

theorem MatchDetails_get_refresh_oldest_witness:
  "MatchDetails_get_refresh 100 10
     [example_match 1 50 0 10 481 0 0, example_match 2 10 0 10 481 0 0,
      example_match 3 95 0 10 481 0 0]
     = Inr (Some (example_match 2 10 0 10 481 0 0))
   \<and> example_match 2 10 0 10 481 0 0
      \<in> set [example_match 1 50 0 10 481 0 0, example_match 2 10 0 10 481 0 0,
          example_match 3 95 0 10 481 0 0]
   \<and> md_last_refresh (example_match 2 10 0 10 481 0 0) < 100 - 10
   \<and> MatchDetails_get_refresh 100 10 [example_match 3 95 0 10 481 0 0] = Inr None"
  using MatchDetails_get_refresh_oldest [of 100 10
      "[example_match 1 50 0 10 481 0 0, example_match 2 10 0 10 481 0 0,
        example_match 3 95 0 10 481 0 0]"]
    MatchDetails_get_refresh_oldest [of 100 10 "[example_match 3 95 0 10 481 0 0]"]
  by (simp add: MatchDetails_get_refresh_def qs_order_by_def qs_filter_def qs_first_def
      example_match_def)

subsection \<open>The match sequence cursor\<close>

lemma get_last_match_seq_num_eq:
  "get_last_match_seq_num objects =
     (case objects 1 of Some v \<Rightarrow> (v, objects) | None \<Rightarrow> (0, objects(1 \<mapsto> 0)))"
  by (simp add: get_last_match_seq_num_def get_or_create_pk1_def split: option.splits)

lemma get_last_match_seq_num_again:
  "get_last_match_seq_num (snd (get_last_match_seq_num objects))
     = (fst (get_last_match_seq_num objects), snd (get_last_match_seq_num objects))"
  by (simp add: get_last_match_seq_num_eq split: option.splits)

lemma run_cursor_calls_dom:
  "dom objects \<subseteq> {1} \<Longrightarrow> dom (run_cursor_calls cs objects) \<subseteq> {1}"
proof (induction cs objects rule: run_cursor_calls.induct)
  case (1 objects)
  then show ?case by simp
next
  case (2 cs objects)
  have "dom (snd (get_last_match_seq_num objects)) \<subseteq> {1}"
    using "2.prems" by (auto simp: get_last_match_seq_num_eq split: option.splits)
  then show ?case using "2.IH" by simp
next
  case (3 v cs objects)
  have "dom (case set_last_match_seq_num v objects of Inr objects' \<Rightarrow> objects'
      | Inl e \<Rightarrow> objects) \<subseteq> {1}"
    using "3.prems" by (auto simp: set_last_match_seq_num_def)
  then show ?case using "3.IH" by simp
qed

lemma run_cursor_calls_value:
  "fst (get_last_match_seq_num (run_cursor_calls cs objects))
     = cursor_after (fst (get_last_match_seq_num objects)) cs"
proof (induction cs objects rule: run_cursor_calls.induct)
  case (1 objects)
  show ?case by simp
next
  case (2 cs objects)
  show ?case using "2.IH" by (simp add: get_last_match_seq_num_again)
next
  case (3 v cs objects)
  have "fst (get_last_match_seq_num
      (case set_last_match_seq_num v objects of Inr objects' \<Rightarrow> objects' | Inl e \<Rightarrow> objects))
    = (if BigIntegerField_range v then v else fst (get_last_match_seq_num objects))"
    by (simp add: set_last_match_seq_num_def get_last_match_seq_num_eq split: option.splits)
  then show ?case using "3.IH" by simp
qed

text \<open>
  C7, as stated: for every value \<open>v\<close>, a read after \<open>set_last_match_seq_num v\<close> returns
  \<open>v\<close>. The column holds signed 64-bit integers: the write of \<open>2 ^ 63\<close> raises, and the
  read after it returns the value stored before, 7.
\<close>

theorem match_sequence_cursor_every_value_counterexample:
  "set_last_match_seq_num (2 ^ 63) [1 \<mapsto> 7] = Inl OverflowError
   \<and> fst (get_last_match_seq_num
        (run_cursor_calls [Set_last 7, Set_last (2 ^ 63)] Map.empty)) = 7
   \<and> (7::int) \<noteq> 2 ^ 63"
  by (simp add: set_last_match_seq_num_def BigIntegerField_range_def get_last_match_seq_num_eq)

text \<open>
  C7, amended: the cursor is a singleton whose reads and writes target the row with key 1.
  \<open>get_last_match_seq_num\<close> returns 0 when the cursor has never been set, and stores that
  0, so that reading again returns the same; for every value \<open>v\<close> in the signed 64-bit
  range of the column, \<open>set_last_match_seq_num v\<close> succeeds and a read after it returns
  \<open>v\<close>; no other row is read or written; after any sequence of calls from the empty table
  there is at most one row, and a read returns the last value stored, or 0.
\<close>

theorem match_sequence_cursor:
  "get_last_match_seq_num Map.empty = (0, [1 \<mapsto> 0])
   \<and> (objects 1 = None \<longrightarrow> get_last_match_seq_num objects = (0, objects(1 \<mapsto> 0)))
   \<and> get_last_match_seq_num (snd (get_last_match_seq_num objects))
       = (fst (get_last_match_seq_num objects), snd (get_last_match_seq_num objects))
   \<and> (BigIntegerField_range v \<longrightarrow>
        set_last_match_seq_num v objects = Inr (objects(1 \<mapsto> v))
        \<and> get_last_match_seq_num (objects(1 \<mapsto> v)) = (v, objects(1 \<mapsto> v)))
   \<and> (\<forall>k. k \<noteq> 1 \<longrightarrow> snd (get_last_match_seq_num objects) k = objects k
          \<and> (\<forall>objects'. set_last_match_seq_num v objects = Inr objects' \<longrightarrow>
                objects' k = objects k))
   \<and> dom (run_cursor_calls cs Map.empty) \<subseteq> {1}
   \<and> card (dom (run_cursor_calls cs Map.empty)) \<le> 1
   \<and> fst (get_last_match_seq_num (run_cursor_calls cs Map.empty)) = cursor_after 0 cs"
proof -
  have a: "get_last_match_seq_num Map.empty = (0, [1 \<mapsto> 0])"
    by (simp add: get_last_match_seq_num_eq)
  have b: "objects 1 = None \<longrightarrow> get_last_match_seq_num objects = (0, objects(1 \<mapsto> 0))"
    by (simp add: get_last_match_seq_num_eq)
  note c = get_last_match_seq_num_again [of objects]
  have d: "BigIntegerField_range v \<longrightarrow>
        set_last_match_seq_num v objects = Inr (objects(1 \<mapsto> v))
        \<and> get_last_match_seq_num (objects(1 \<mapsto> v)) = (v, objects(1 \<mapsto> v))"
    by (simp add: set_last_match_seq_num_def get_last_match_seq_num_eq)
  have e: "\<forall>k. k \<noteq> 1 \<longrightarrow> snd (get_last_match_seq_num objects) k = objects k
          \<and> (\<forall>objects'. set_last_match_seq_num v objects = Inr objects' \<longrightarrow>
                objects' k = objects k)"
    by (auto simp: get_last_match_seq_num_eq set_last_match_seq_num_def
        split: option.splits if_splits)
  have f: "dom (run_cursor_calls cs Map.empty) \<subseteq> {1}"
    by (rule run_cursor_calls_dom) simp
  then have "card (dom (run_cursor_calls cs Map.empty)) \<le> card {1::int}"
    by (intro card_mono) simp_all
  then have g: "card (dom (run_cursor_calls cs Map.empty)) \<le> 1" by simp
  have h: "fst (get_last_match_seq_num (run_cursor_calls cs Map.empty)) = cursor_after 0 cs"
    using run_cursor_calls_value [of cs Map.empty] by (simp add: get_last_match_seq_num_eq)
  from a b c d e f g h show ?thesis by blast
qed

theorem match_sequence_cursor_witness:
  "BigIntegerField_range 9223372036854775807
   \<and> set_last_match_seq_num 9223372036854775807 [1 \<mapsto> 7]
       = Inr [1 \<mapsto> 9223372036854775807]
   \<and> get_last_match_seq_num [1 \<mapsto> 9223372036854775807]
       = (9223372036854775807, [1 \<mapsto> 9223372036854775807])
   \<and> ([2 \<mapsto> 5] :: MatchSequenceNumber_table) 1 = None
   \<and> get_last_match_seq_num [2 \<mapsto> 5] = (0, [2 \<mapsto> 5, 1 \<mapsto> 0])
   \<and> (2::int) \<noteq> 1
   \<and> snd (get_last_match_seq_num [2 \<mapsto> 5]) 2 = Some 5
   \<and> fst (get_last_match_seq_num
        (run_cursor_calls [Get_last, Set_last 7, Set_last (2 ^ 63), Get_last] Map.empty)) = 7
   \<and> fst (get_last_match_seq_num (run_cursor_calls [Get_last, Get_last] Map.empty)) = 0"
proof -
  have r: "BigIntegerField_range 9223372036854775807"
    by (simp add: BigIntegerField_range_def)
  have n: "([2 \<mapsto> 5] :: MatchSequenceNumber_table) 1 = None"
    by simp
  note t1 = match_sequence_cursor [of "[1 \<mapsto> 7]" 9223372036854775807 "[]"]
  note t2 = match_sequence_cursor [of "[2 \<mapsto> 5]" 0
      "[Get_last, Set_last 7, Set_last (2 ^ 63), Get_last]"]
  note t3 = match_sequence_cursor [of Map.empty 0 "[Get_last, Get_last]"]
  have a: "set_last_match_seq_num 9223372036854775807 [1 \<mapsto> 7]
       = Inr [1 \<mapsto> 9223372036854775807]
     \<and> get_last_match_seq_num [1 \<mapsto> 9223372036854775807]
       = (9223372036854775807, [1 \<mapsto> 9223372036854775807])"
    using t1 r by simp
  have b: "get_last_match_seq_num [2 \<mapsto> 5] = (0, [2 \<mapsto> 5, 1 \<mapsto> 0])"
    using t2 n by blast
  have "\<forall>k. k \<noteq> 1 \<longrightarrow>
      snd (get_last_match_seq_num [2 \<mapsto> 5]) k = ([2 \<mapsto> 5] :: MatchSequenceNumber_table) k
      \<and> (\<forall>objects'. set_last_match_seq_num 0 [2 \<mapsto> 5] = Inr objects' \<longrightarrow>
            objects' k = ([2 \<mapsto> 5] :: MatchSequenceNumber_table) k)"
    using t2 by (elim conjE)
  then have c: "snd (get_last_match_seq_num [2 \<mapsto> 5]) 2 = Some 5"
    by simp
  have "fst (get_last_match_seq_num
        (run_cursor_calls [Get_last, Set_last 7, Set_last (2 ^ 63), Get_last] Map.empty))
      = cursor_after 0 [Get_last, Set_last 7, Set_last (2 ^ 63), Get_last]"
    using t2 by (elim conjE)
  then have d: "fst (get_last_match_seq_num
        (run_cursor_calls [Get_last, Set_last 7, Set_last (2 ^ 63), Get_last] Map.empty)) = 7"
    by (simp add: BigIntegerField_range_def)
  have "fst (get_last_match_seq_num (run_cursor_calls [Get_last, Get_last] Map.empty))
      = cursor_after 0 [Get_last, Get_last]"
    using t3 by (elim conjE)
  then have e: "fst (get_last_match_seq_num (run_cursor_calls [Get_last, Get_last] Map.empty)) = 0"
    by simp
  from r a n b c d e show ?thesis by simp
qed

subsection \<open>Identity Resolver\<close>

text \<open>
  C5. Converting an in-game account number to the 64-bit platform identifier and back
  gives the number again, for every integer and so for every 32-bit one; an absent account
  number gives an absent identity, not zero, and the way back keeps absence too.
\<close>

theorem identity_round_trip:
  "(\<exists>s. convertAccountNumbertoSteam64 offset (JInt a) = Inr (Some s)
        \<and> convertSteam64toAccountNumber offset (Some s) = Some a)
   \<and> convertAccountNumbertoSteam64 offset JNull = Inr None
   \<and> convertAccountNumbertoSteam64 offset JNull \<noteq> Inr (Some 0)
   \<and> convertAccountNumbertoSteam64 offset (dict_get Map.empty ''account_id'') = Inr None
   \<and> convertSteam64toAccountNumber offset None = None"
  by (simp add: convertAccountNumbertoSteam64_def convertSteam64toAccountNumber_def dict_get_def)

theorem identity_round_trip_witness:
  "convertAccountNumbertoSteam64 76561197960265728 (JInt 4294967295)
     = Inr (Some 76561202255233023)
   \<and> convertSteam64toAccountNumber 76561197960265728 (Some 76561202255233023)
     = Some 4294967295
   \<and> convertAccountNumbertoSteam64 76561197960265728 JNull = Inr None"
  using identity_round_trip [of 76561197960265728 4294967295]
  by (simp add: convertAccountNumbertoSteam64_def convertSteam64toAccountNumber_def)

subsection \<open>Construction from upstream records\<close>

lemma bind_err_simps:
  "bind_err (Inr v) f = f v" "bind_err (Inl e) f = Inl e"
  by (simp_all add: bind_err_def)

lemma py_eq_None_dict_get:
  "py_eq_None (dict_get j key) = (j key = None \<or> j key = Some JNull)"
  by (simp add: py_eq_None_def dict_get_def split: option.splits)

lemma player_entry_hero_zero_dropped:
  "j ''hero_id'' = Some hero \<Longrightarrow> py_eq_int hero 0 \<Longrightarrow>
     MatchDetailsPlayerEntry_from_json_response convert match_details j = Inr None"
  by (simp add: MatchDetailsPlayerEntry_from_json_response_def dict_item_def bind_err_simps)

lemma bind_err_eq_Inr: "(bind_err x f = Inr y) = (\<exists>v. x = Inr v \<and> f v = Inr y)"
  by (cases x) (simp_all add: bind_err_def)

lemma dict_item_present: "j key \<noteq> None \<Longrightarrow> dict_item j key = Inr (dict_get j key)"
  by (auto simp: dict_item_def dict_get_def)

lemma dict_item_Inr: "(dict_item j key = Inr v) = (j key = Some v)"
  by (simp add: dict_item_def split: option.splits)

lemma player_entry_accepted:
  assumes "MatchDetailsPlayerEntry_from_json_response convert match_details j = Inr (Some e)"
  shows "(\<forall>key \<in> set MatchDetailsPlayerEntry_required_keys. j key \<noteq> None)
    \<and> \<not> py_eq_int (dict_get j ''hero_id'') 0
    \<and> (\<exists>a. convert (dict_get j ''account_id'') = Inr a)"
  using assms
  unfolding MatchDetailsPlayerEntry_from_json_response_def MatchDetailsPlayerEntry_required_keys_def
  by (auto simp: bind_err_eq_Inr dict_item_Inr dict_get_def split: if_splits)

lemma player_entry_built:
  assumes keys: "\<forall>key \<in> set MatchDetailsPlayerEntry_required_keys. j key \<noteq> None"
    and hero: "\<not> py_eq_int (dict_get j ''hero_id'') 0"
    and conv: "convert (dict_get j ''account_id'') = Inr a"
  shows "\<exists>e. MatchDetailsPlayerEntry_from_json_response convert match_details j = Inr (Some e)"
proof -
  have present: "dict_item j key = Inr (dict_get j key)"
    if "key \<in> set MatchDetailsPlayerEntry_required_keys" for key
    using keys that by (intro dict_item_present) blast
  show ?thesis
    unfolding MatchDetailsPlayerEntry_from_json_response_def
    by (simp add: present MatchDetailsPlayerEntry_required_keys_def bind_err_simps hero conv)
qed

lemma entry_bot_flag:
  assumes "MatchDetailsPlayerEntry_from_json_response convert match_details j = Inr (Some e)"
  shows "pe_is_bot e =
    (py_eq_None (dict_get j ''account_id'') \<or> py_eq_None (dict_get j ''leaver_status''))"
  using assms unfolding MatchDetailsPlayerEntry_from_json_response_def
  by (auto simp: bind_err_eq_Inr split: if_splits)

lemma participant_accepted:
  assumes "MatchHistoryQueuePlayers_from_json_response convert q j = Inr p"
  shows "(\<forall>key \<in> set MatchHistoryQueuePlayers_required_keys. j key \<noteq> None)
    \<and> (\<exists>a. convert (dict_get j ''account_id'') = Inr a)"
  using assms
  unfolding MatchHistoryQueuePlayers_from_json_response_def MatchHistoryQueuePlayers_required_keys_def
  by (auto simp: bind_err_eq_Inr dict_item_Inr)

lemma participant_built:
  assumes keys: "\<forall>key \<in> set MatchHistoryQueuePlayers_required_keys. j key \<noteq> None"
    and conv: "convert (dict_get j ''account_id'') = Inr a"
  shows "\<exists>p. MatchHistoryQueuePlayers_from_json_response convert q j = Inr p"
proof -
  have present: "dict_item j key = Inr (dict_get j key)"
    if "key \<in> set MatchHistoryQueuePlayers_required_keys" for key
    using keys that by (intro dict_item_present) blast
  show ?thesis
    unfolding MatchHistoryQueuePlayers_from_json_response_def
    by (simp add: present MatchHistoryQueuePlayers_required_keys_def bind_err_simps conv)
qed

lemma participant_bot_flag:
  assumes "MatchHistoryQueuePlayers_from_json_response convert q j = Inr p"
  shows "qp_is_bot p = py_eq_None (dict_get j ''account_id'')"
  using assms unfolding MatchHistoryQueuePlayers_from_json_response_def
  by (auto simp: bind_err_eq_Inr split: if_splits)

lemma queue_player_hero_kept:
  assumes "MatchHistoryQueuePlayers_from_json_response convert q j = Inr p"
  shows "j ''hero_id'' = Some (qp_hero_id_id p)"
  using assms unfolding MatchHistoryQueuePlayers_from_json_response_def
  by (auto simp: bind_err_eq_Inr dict_item_def split: option.splits)

lemma entry_caseI:
  "r = Inr (Some e) \<Longrightarrow> P e \<Longrightarrow> (case r of Inr (Some e) \<Rightarrow> P e | _ \<Rightarrow> False)"
  by simp

lemma participant_caseI:
  "r = Inr p \<Longrightarrow> P p \<Longrightarrow> (case r of Inr p \<Rightarrow> P p | Inl e \<Rightarrow> False)"
  by simp

text \<open>
  C6. \<open>MatchDetailsPlayerEntry_from_json_response\<close> accepts a player-detail record (returns
  an entry) exactly when the record has the keys the constructor requires, its hero id is
  not 0 and the identity conversion of its account id does not raise; the record need not
  have an \<^verbatim>\<open>account_id\<close> or a \<^verbatim>\<open>leaver_status\<close>. The bot flag of the entry is true if and
  only if the record's \<^verbatim>\<open>account_id\<close> is absent or null, or its \<^verbatim>\<open>leaver_status\<close> is
  absent or null.
\<close>

theorem player_entry_is_bot:
  "((\<exists>e. MatchDetailsPlayerEntry_from_json_response convert match_details j = Inr (Some e)) =
      ((\<forall>key \<in> set MatchDetailsPlayerEntry_required_keys. j key \<noteq> None)
       \<and> \<not> py_eq_int (dict_get j ''hero_id'') 0
       \<and> (\<exists>a. convert (dict_get j ''account_id'') = Inr a)))
   \<and> (\<forall>e. MatchDetailsPlayerEntry_from_json_response convert match_details j = Inr (Some e)
        \<longrightarrow> pe_is_bot e =
          ((j ''account_id'' = None \<or> j ''account_id'' = Some JNull)
           \<or> (j ''leaver_status'' = None \<or> j ''leaver_status'' = Some JNull)))"
proof -
  have a: "(\<exists>e. MatchDetailsPlayerEntry_from_json_response convert match_details j
        = Inr (Some e)) =
      ((\<forall>key \<in> set MatchDetailsPlayerEntry_required_keys. j key \<noteq> None)
       \<and> \<not> py_eq_int (dict_get j ''hero_id'') 0
       \<and> (\<exists>a. convert (dict_get j ''account_id'') = Inr a))"
    using player_entry_accepted [of convert match_details j]
      player_entry_built [of j convert _ match_details]
    by blast
  have b: "\<forall>e. MatchDetailsPlayerEntry_from_json_response convert match_details j
        = Inr (Some e)
        \<longrightarrow> pe_is_bot e =
          ((j ''account_id'' = None \<or> j ''account_id'' = Some JNull)
           \<or> (j ''leaver_status'' = None \<or> j ''leaver_status'' = Some JNull))"
    using entry_bot_flag [of convert match_details j]
    by (simp only: py_eq_None_dict_get) blast
  from a b show ?thesis by (rule conjI)
qed

lemma example_detail_player_keys:
  "\<forall>key \<in> set MatchDetailsPlayerEntry_required_keys.
     ((example_detail_player (JInt 5))(''account_id'' := a, ''leaver_status'' := l)) key \<noteq> None"
  by (simp add: MatchDetailsPlayerEntry_required_keys_def example_detail_player_def)

lemma example_detail_player_optional:
  "dict_get ((example_detail_player (JInt 5))(''account_id'' := a, ''leaver_status'' := l))
     ''hero_id'' = JInt 5"
  "((example_detail_player (JInt 5))(''account_id'' := a, ''leaver_status'' := l))
     ''account_id'' = a"
  "((example_detail_player (JInt 5))(''account_id'' := a, ''leaver_status'' := l))
     ''leaver_status'' = l"
  "dict_get ((example_detail_player (JInt 5))(''account_id'' := a, ''leaver_status'' := l))
     ''account_id'' = (case a of None \<Rightarrow> JNull | Some v \<Rightarrow> v)"
  by (simp_all add: example_detail_player_def dict_get_def)

text \<open>
  Five records: without an account id, with a null account id, without a leaver status and
  with a null leaver status the entry is a bot; with both present it is not.
\<close>

theorem player_entry_is_bot_witness:
  "(case MatchDetailsPlayerEntry_from_json_response
          (convertAccountNumbertoSteam64 76561197960265728) (example_match 1 0 0 10 481 0 0)
          ((example_detail_player (JInt 5))
             (''account_id'' := None, ''leaver_status'' := Some (JInt 0))) of
      Inr (Some e) \<Rightarrow> pe_is_bot e | _ \<Rightarrow> False)
   \<and> (case MatchDetailsPlayerEntry_from_json_response
          (convertAccountNumbertoSteam64 76561197960265728) (example_match 1 0 0 10 481 0 0)
          ((example_detail_player (JInt 5))
             (''account_id'' := Some JNull, ''leaver_status'' := Some (JInt 0))) of
      Inr (Some e) \<Rightarrow> pe_is_bot e | _ \<Rightarrow> False)
   \<and> (case MatchDetailsPlayerEntry_from_json_response
          (convertAccountNumbertoSteam64 76561197960265728) (example_match 1 0 0 10 481 0 0)
          ((example_detail_player (JInt 5))
             (''account_id'' := Some (JInt 7), ''leaver_status'' := None)) of
      Inr (Some e) \<Rightarrow> pe_is_bot e | _ \<Rightarrow> False)
   \<and> (case MatchDetailsPlayerEntry_from_json_response
          (convertAccountNumbertoSteam64 76561197960265728) (example_match 1 0 0 10 481 0 0)
          ((example_detail_player (JInt 5))
             (''account_id'' := Some (JInt 7), ''leaver_status'' := Some JNull)) of
      Inr (Some e) \<Rightarrow> pe_is_bot e | _ \<Rightarrow> False)
   \<and> (case MatchDetailsPlayerEntry_from_json_response
          (convertAccountNumbertoSteam64 76561197960265728) (example_match 1 0 0 10 481 0 0)
          ((example_detail_player (JInt 5))
             (''account_id'' := Some (JInt 7), ''leaver_status'' := Some (JInt 0))) of
      Inr (Some e) \<Rightarrow> \<not> pe_is_bot e | _ \<Rightarrow> False)"
proof -
  let ?convert = "convertAccountNumbertoSteam64 76561197960265728"
  let ?md = "example_match 1 0 0 10 481 0 0"
  let ?j = "\<lambda>a l. (example_detail_player (JInt 5))(''account_id'' := a, ''leaver_status'' := l)"
  let ?F = "\<lambda>a l. MatchDetailsPlayerEntry_from_json_response ?convert ?md (?j a l)"
  have flag: "\<exists>e. ?F a l = Inr (Some e)
      \<and> pe_is_bot e = ((a = None \<or> a = Some JNull) \<or> (l = None \<or> l = Some JNull))"
    if "a \<in> {None, Some JNull, Some (JInt 7)}" for a l
  proof -
    note t = player_entry_is_bot [of ?convert ?md "?j a l"]
    have "\<exists>x. ?convert (dict_get (?j a l) ''account_id'') = Inr x"
      using that by (auto simp: example_detail_player_optional convertAccountNumbertoSteam64_def)
    then have "\<exists>e. ?F a l = Inr (Some e)"
      using t example_detail_player_keys [of a l]
      by (simp add: example_detail_player_optional(1))
    then obtain e where e: "?F a l = Inr (Some e)" by blast
    then have "pe_is_bot e = ((a = None \<or> a = Some JNull) \<or> (l = None \<or> l = Some JNull))"
      using t by (simp add: example_detail_player_optional(2,3))
    with e show ?thesis by blast
  qed
  have w1: "case ?F None (Some (JInt 0)) of Inr (Some e) \<Rightarrow> pe_is_bot e | _ \<Rightarrow> False"
    using flag [of None "Some (JInt 0)"] by (auto intro: entry_caseI)
  have w2: "case ?F (Some JNull) (Some (JInt 0)) of Inr (Some e) \<Rightarrow> pe_is_bot e | _ \<Rightarrow> False"
    using flag [of "Some JNull" "Some (JInt 0)"] by (auto intro: entry_caseI)
  have w3: "case ?F (Some (JInt 7)) None of Inr (Some e) \<Rightarrow> pe_is_bot e | _ \<Rightarrow> False"
    using flag [of "Some (JInt 7)" None] by (auto intro: entry_caseI)
  have w4: "case ?F (Some (JInt 7)) (Some JNull) of Inr (Some e) \<Rightarrow> pe_is_bot e | _ \<Rightarrow> False"
    using flag [of "Some (JInt 7)" "Some JNull"] by (auto intro: entry_caseI)
  have w5: "case ?F (Some (JInt 7)) (Some (JInt 0)) of
      Inr (Some e) \<Rightarrow> \<not> pe_is_bot e | _ \<Rightarrow> False"
    using flag [of "Some (JInt 7)" "Some (JInt 0)"] by (auto intro: entry_caseI)
  from w1 w2 w3 w4 w5 show ?thesis by (intro conjI)
qed

text \<open>
  C10. \<open>MatchHistoryQueuePlayers_from_json_response\<close> builds a participant for every
  discovery-summary record that has a player slot and a hero id and whose account id the
  identity conversion takes; the record need not have an \<^verbatim>\<open>account_id\<close>. The
  participant's bot flag is true if and only if the record's \<^verbatim>\<open>account_id\<close> is absent or
  null; whatever the record says under \<^verbatim>\<open>leaver_status\<close> changes nothing in the result.
\<close>

theorem queue_player_is_bot:
  "((\<exists>p. MatchHistoryQueuePlayers_from_json_response convert q j = Inr p) =
      ((\<forall>key \<in> set MatchHistoryQueuePlayers_required_keys. j key \<noteq> None)
       \<and> (\<exists>a. convert (dict_get j ''account_id'') = Inr a)))
   \<and> (\<forall>p. MatchHistoryQueuePlayers_from_json_response convert q j = Inr p \<longrightarrow>
        qp_is_bot p = (j ''account_id'' = None \<or> j ''account_id'' = Some JNull))
   \<and> MatchHistoryQueuePlayers_from_json_response convert q (j(''leaver_status'' := l))
       = MatchHistoryQueuePlayers_from_json_response convert q j"
proof -
  have a: "(\<exists>p. MatchHistoryQueuePlayers_from_json_response convert q j = Inr p) =
      ((\<forall>key \<in> set MatchHistoryQueuePlayers_required_keys. j key \<noteq> None)
       \<and> (\<exists>a. convert (dict_get j ''account_id'') = Inr a))"
    using participant_accepted [of convert q j] participant_built [of j convert _ q]
    by blast
  have b: "\<forall>p. MatchHistoryQueuePlayers_from_json_response convert q j = Inr p \<longrightarrow>
      qp_is_bot p = (j ''account_id'' = None \<or> j ''account_id'' = Some JNull)"
    using participant_bot_flag [of convert q j]
    by (simp only: py_eq_None_dict_get) blast
  have c: "MatchHistoryQueuePlayers_from_json_response convert q (j(''leaver_status'' := l))
       = MatchHistoryQueuePlayers_from_json_response convert q j"
    by (simp add: MatchHistoryQueuePlayers_from_json_response_def dict_get_def dict_item_def)
  from a b c show ?thesis by (intro conjI)
qed

text \<open>
  Records without an account id and with a null account id give a bot, a record with an
  account id does not, with or without a leaver status; the detailed entry of that last
  record, which has no leaver status, is a bot.
\<close>

theorem queue_player_is_bot_witness:
  "(case MatchHistoryQueuePlayers_from_json_response
          (convertAccountNumbertoSteam64 76561197960265728) example_queue
          ((example_detail_player (JInt 5))(''account_id'' := None)) of
      Inr p \<Rightarrow> qp_is_bot p | Inl e \<Rightarrow> False)
   \<and> (case MatchHistoryQueuePlayers_from_json_response
          (convertAccountNumbertoSteam64 76561197960265728) example_queue
          ((example_detail_player (JInt 5))(''account_id'' := Some JNull)) of
      Inr p \<Rightarrow> qp_is_bot p | Inl e \<Rightarrow> False)
   \<and> (case MatchHistoryQueuePlayers_from_json_response
          (convertAccountNumbertoSteam64 76561197960265728) example_queue
          ((example_detail_player (JInt 5))(''account_id'' := Some (JInt 7))) of
      Inr p \<Rightarrow> \<not> qp_is_bot p | Inl e \<Rightarrow> False)
   \<and> MatchHistoryQueuePlayers_from_json_response
        (convertAccountNumbertoSteam64 76561197960265728) example_queue
        ((example_detail_player (JInt 5))
           (''account_id'' := Some (JInt 7), ''leaver_status'' := Some (JInt 1)))
     = MatchHistoryQueuePlayers_from_json_response
        (convertAccountNumbertoSteam64 76561197960265728) example_queue
        ((example_detail_player (JInt 5))(''account_id'' := Some (JInt 7)))
   \<and> (example_detail_player (JInt 5)) ''leaver_status'' = None
   \<and> (case MatchDetailsPlayerEntry_from_json_response
          (convertAccountNumbertoSteam64 76561197960265728) (example_match 1 0 0 10 481 0 0)
          ((example_detail_player (JInt 5))(''account_id'' := Some (JInt 7))) of
      Inr (Some e) \<Rightarrow> pe_is_bot e | _ \<Rightarrow> False)"
proof -
  let ?convert = "convertAccountNumbertoSteam64 76561197960265728"
  let ?j = "\<lambda>a. (example_detail_player (JInt 5))(''account_id'' := a)"
  let ?G = "\<lambda>a. MatchHistoryQueuePlayers_from_json_response ?convert example_queue (?j a)"
  have keys: "\<forall>key \<in> set MatchHistoryQueuePlayers_required_keys. ?j a key \<noteq> None" for a
    by (simp add: MatchHistoryQueuePlayers_required_keys_def example_detail_player_def)
  have acc: "?j a ''account_id'' = a" for a
    by simp
  have flag: "\<exists>p. ?G a = Inr p \<and> qp_is_bot p = (a = None \<or> a = Some JNull)"
    if "a \<in> {None, Some JNull, Some (JInt 7)}" for a
  proof -
    note t = queue_player_is_bot [of ?convert example_queue "?j a" "Some (JInt 1)"]
    have "\<exists>x. ?convert (dict_get (?j a) ''account_id'') = Inr x"
      using that by (auto simp: dict_get_def convertAccountNumbertoSteam64_def)
    then have "\<exists>p. ?G a = Inr p"
      using t keys [of a] by simp
    then obtain p where p: "?G a = Inr p" by blast
    have "\<forall>p. ?G a = Inr p \<longrightarrow> qp_is_bot p = (?j a ''account_id'' = None
        \<or> ?j a ''account_id'' = Some JNull)"
      using t by (elim conjE)
    then have "qp_is_bot p = (a = None \<or> a = Some JNull)"
      using p by (simp only: acc)
    with p show ?thesis by blast
  qed
  have w1: "case ?G None of Inr p \<Rightarrow> qp_is_bot p | Inl e \<Rightarrow> False"
    using flag [of None] by (auto intro: participant_caseI)
  have w2: "case ?G (Some JNull) of Inr p \<Rightarrow> qp_is_bot p | Inl e \<Rightarrow> False"
    using flag [of "Some JNull"] by (auto intro: participant_caseI)
  have w3: "case ?G (Some (JInt 7)) of Inr p \<Rightarrow> \<not> qp_is_bot p | Inl e \<Rightarrow> False"
    using flag [of "Some (JInt 7)"] by (auto intro: participant_caseI)
  have w4: "MatchHistoryQueuePlayers_from_json_response ?convert example_queue
        ((?j (Some (JInt 7)))(''leaver_status'' := Some (JInt 1)))
      = ?G (Some (JInt 7))"
    using queue_player_is_bot [of ?convert example_queue "?j (Some (JInt 7))" "Some (JInt 1)"]
    by (elim conjE)
  have w5: "(example_detail_player (JInt 5)) ''leaver_status'' = None"
    by (simp add: example_detail_player_def)
  have w6: "case MatchDetailsPlayerEntry_from_json_response ?convert
          (example_match 1 0 0 10 481 0 0) (?j (Some (JInt 7))) of
      Inr (Some e) \<Rightarrow> pe_is_bot e | _ \<Rightarrow> False"
    by (simp add: MatchDetailsPlayerEntry_from_json_response_def example_detail_player_def
        dict_item_def dict_get_def bind_err_simps convertAccountNumbertoSteam64_def
        py_eq_None_def)
  from w1 w2 w3 w4 w5 w6 show ?thesis by (intro conjI)
qed

text \<open>
  C3. A player-detail record whose hero id is 0 is dropped by
  \<open>MatchDetailsPlayerEntry_from_json_response\<close> (lemma \<open>player_entry_hero_zero_dropped\<close>
  above). \<open>MatchHistoryQueuePlayers_from_json_response\<close> has no such test: for the
  discovery-summary participant with hero id 0 below it returns a participant row whose
  hero id is 0.
\<close>

theorem queue_player_hero_zero_not_dropped:
  "MatchDetailsPlayerEntry_from_json_response (convertAccountNumbertoSteam64 offset)
       match_details
       [''account_id'' \<mapsto> JInt 7, ''player_slot'' \<mapsto> JInt 0, ''hero_id'' \<mapsto> JInt 0]
     = Inr None
   \<and> MatchHistoryQueuePlayers_from_json_response (convertAccountNumbertoSteam64 offset)
       match_history_queue
       [''account_id'' \<mapsto> JInt 7, ''player_slot'' \<mapsto> JInt 0, ''hero_id'' \<mapsto> JInt 0]
     = Inr \<lparr>qp_match_history_queue = match_history_queue,
            qp_account_id_id = Some (7 + offset),
            qp_player_slot = JInt 0, qp_hero_id_id = JInt 0, qp_is_bot = False\<rparr>"
  by (simp add: MatchDetailsPlayerEntry_from_json_response_def
      MatchHistoryQueuePlayers_from_json_response_def dict_item_def dict_get_def
      bind_err_simps convertAccountNumbertoSteam64_def py_eq_None_def)

end
